theory Spec2Isabelle
  imports Complex_Main "HOL-Library.Stream"
begin

section \<open>Python values, errors and list operations\<close>

text \<open>
  The exceptions that sample construction in \<^verbatim>\<open>dataset.py\<close> can raise.
  \<open>TransformError\<close> stands for any failure of the external randomizer or
  tokenizer, which the dataset classes let propagate.
\<close>

datatype error = IndexError | ZeroDivisionError | ValueError | AttributeError | TransformError

text \<open>Sequencing of fallible steps: the first raised exception ends the call.\<close>

definition bind_err :: "error + 'a \<Rightarrow> ('a \<Rightarrow> error + 'b) \<Rightarrow> error + 'b" where
  "bind_err m f = (case m of Inl e \<Rightarrow> Inl e | Inr x \<Rightarrow> f x)"

text \<open>
  Indexing a one-dimensional array, \<^verbatim>\<open>xs[i]\<close>: a negative index counts from
  the end, an index outside \<open>[-n, n)\<close> raises IndexError.
\<close>

definition py_index :: "'a list \<Rightarrow> int \<Rightarrow> error + 'a" where
  "py_index xs i =
     (if 0 \<le> i \<and> i < int (length xs) then Inr (xs ! nat i)
      else if - int (length xs) \<le> i \<and> i < 0 then Inr (xs ! nat (int (length xs) + i))
      else Inl IndexError)"

text \<open>
  The prefix slice \<^verbatim>\<open>xs[:n]\<close>: for \<open>n \<ge> 0\<close> the first \<open>n\<close> elements, for
  \<open>n < 0\<close> everything but the last \<open>-n\<close> elements.
\<close>

definition py_prefix :: "'a list \<Rightarrow> int \<Rightarrow> 'a list" where
  "py_prefix xs n =
     (if 0 \<le> n then take (nat n) xs else take (length xs - nat (- n)) xs)"

text \<open>List repetition \<^verbatim>\<open>[x]*k\<close>: empty for \<open>k \<le> 0\<close>.\<close>

definition py_repeat :: "'a \<Rightarrow> int \<Rightarrow> 'a list" where
  "py_repeat x k = replicate (nat k) x"

section \<open>The vocabulary\<close>

text \<open>
  The vocabulary class is not part of \<^verbatim>\<open>dataset.py\<close>; the dataset classes read
  its attributes \<^verbatim>\<open>stoi\<close> (a dict from token to id), the five reserved indices
  and its length. It is taken as a parameter with exactly these attributes.
\<close>

record Vocab =
  stoi :: "string \<rightharpoonup> int"
  pad_index :: int
  unk_index :: int
  sos_index :: int
  eos_index :: int
  mask_index :: int
  vocab_len :: nat

text \<open>The module constant \<^verbatim>\<open>PAD = 0\<close>.\<close>

definition PAD :: int where
  "PAD = 0"

text \<open>\<^verbatim>\<open>self.vocab.stoi.get(token, self.vocab.unk_index)\<close>\<close>

definition stoi_get :: "Vocab \<Rightarrow> string \<Rightarrow> int" where
  "stoi_get v token = (case stoi v token of None \<Rightarrow> unk_index v | Some i \<Rightarrow> i)"

section \<open>The random source\<close>

text \<open>
  The process-wide generator of the \<^verbatim>\<open>random\<close> module is made explicit as a
  state: the stream of values that successive calls of \<^verbatim>\<open>random.random()\<close>
  return, and the stream of raw values behind successive calls of
  \<^verbatim>\<open>random.randrange\<close>. Float draws are idealised as real numbers.
  \<^verbatim>\<open>randrange(n)\<close> raises ValueError for an empty range and otherwise returns
  a value below \<open>n\<close>; every value below \<open>n\<close> is the outcome for some raw value.
\<close>

record rng =
  uniforms :: "real stream"
  raws :: "nat stream"

definition random_random :: "rng \<Rightarrow> real \<times> rng" where
  "random_random g = (shd (uniforms g), g\<lparr>uniforms := stl (uniforms g)\<rparr>)"

definition randrange :: "nat \<Rightarrow> rng \<Rightarrow> error + (int \<times> rng)" where
  "randrange n g =
     (if n = 0 then Inl ValueError
      else Inr (int (shd (raws g) mod n), g\<lparr>raws := stl (raws g)\<rparr>))"

section \<open>The masking routine\<close>

text \<open>
  One iteration of the loop body of \<^verbatim>\<open>STDataset.mask\<close> and
  \<^verbatim>\<open>MSMDataset.mask\<close>, which differ only in the rate compared against
  (\<open>0.15\<close> and \<^verbatim>\<open>self.rate\<close>). It returns the pair
  \<open>(masked_ids[i], ans_ids[i])\<close> and the generator after the draws.
  The in-place division \<^verbatim>\<open>prob /= rate\<close> raises ZeroDivisionError for a
  zero rate.
\<close>

definition mask_token :: "Vocab \<Rightarrow> bool \<Rightarrow> real \<Rightarrow> string \<Rightarrow> rng \<Rightarrow> error + ((int \<times> int) \<times> rng)" where
  "mask_token v is_train rate token g =
     (let (prob, g1) = (if is_train then random_random g else (1, g))
      in if prob > rate then Inr ((stoi_get v token, PAD), g1)
         else if rate = 0 then Inl ZeroDivisionError
         else let prob' = prob / rate
              in if prob' < 0.8 then Inr ((mask_index v, stoi_get v token), g1)
                 else if prob' < 0.9 then
                   bind_err (randrange (vocab_len v) g1)
                     (\<lambda>(k, g2). Inr ((k, stoi_get v token), g2))
                 else Inr ((stoi_get v token, stoi_get v token), g1))"

text \<open>The loop over the tokens, filling \<open>masked_ids\<close> and \<open>ans_ids\<close> in order.\<close>

fun mask_loop :: "Vocab \<Rightarrow> bool \<Rightarrow> real \<Rightarrow> string list \<Rightarrow> rng \<Rightarrow> error + ((int list \<times> int list) \<times> rng)" where
  "mask_loop v is_train rate [] g = Inr (([], []), g)"
| "mask_loop v is_train rate (token # sm) g =
     bind_err (mask_token v is_train rate token g)
       (\<lambda>((m, a), g1).
          bind_err (mask_loop v is_train rate sm g1)
            (\<lambda>((masked_ids, ans_ids), g2). Inr ((m # masked_ids, a # ans_ids), g2)))"

text \<open>The loop of \<^verbatim>\<open>encode\<close> (and the list comprehension of Seq2seqDataset).\<close>

definition encode :: "Vocab \<Rightarrow> string list \<Rightarrow> int list" where
  "encode v sm = map (stoi_get v) sm"

section \<open>Samples\<close>

text \<open>
  The dictionary returned by \<^verbatim>\<open>__getitem__\<close>; a key that a variant does not
  produce is \<open>None\<close>. The conversion of each value by \<^verbatim>\<open>torch.tensor\<close> keeps
  the elements and their number and is left out.
\<close>

record sample =
  bert_input :: "int list"
  bert_label :: "int list option"
  segment_embd :: "int list"
  is_same :: "int option"
  target :: "real option"

text \<open>
  The callable \<^verbatim>\<open>transform\<close> (by default the external Randomizer: rewrite the
  molecule string at random, then split it into tokens) is a parameter. It has
  a state of its own, of an arbitrary type \<open>'e\<close>, so that two calls on one
  string may differ, and it may fail.
\<close>

type_synonym 'e transform = "string \<Rightarrow> 'e \<Rightarrow> error + (string list \<times> 'e)"

text \<open>Attribute values, for attribute lookup by name on an instance.\<close>

datatype attr_val =
  AVocab Vocab | AInt int | ABool bool | AReal real | AStrs "string list" | AReals "real list" | ACallable

section \<open>STDataset\<close>

record 'e STDataset =
  vocab :: Vocab
  seq_len :: int
  is_train :: bool
  transform :: "'e transform"
  data_size :: nat
  firsts :: "string list"
  seconds :: "string list"

text \<open>
  \<^verbatim>\<open>STDataset.__init__\<close>; the data frame read from \<^verbatim>\<open>corpus_path\<close> is given
  as its rows, each with the columns \<^verbatim>\<open>first\<close> and \<^verbatim>\<open>second\<close>.
\<close>

definition ST_init :: "(string \<times> string) list \<Rightarrow> Vocab \<Rightarrow> int \<Rightarrow> 'e transform \<Rightarrow> bool \<Rightarrow> 'e STDataset" where
  "ST_init df v sl tr it =
     (let max_size = 10000;
          fs = map fst df;
          ss = map snd df;
          cut = (\<not> it \<and> length df > max_size)
      in STDataset.make v sl it tr (length df)
           (if cut then take max_size fs else fs)
           (if cut then take max_size ss else ss))"

text \<open>
  Reading an attribute of an STDataset instance by name: the attributes are
  the seven that \<^verbatim>\<open>__init__\<close> assigns; no method of the class assigns another.
\<close>

definition ST_getattr :: "'e STDataset \<Rightarrow> string \<Rightarrow> error + attr_val" where
  "ST_getattr d name =
     (if name = ''vocab'' then Inr (AVocab (STDataset.vocab d))
      else if name = ''seq_len'' then Inr (AInt (STDataset.seq_len d))
      else if name = ''is_train'' then Inr (ABool (STDataset.is_train d))
      else if name = ''transform'' then Inr ACallable
      else if name = ''data_size'' then Inr (AInt (int (STDataset.data_size d)))
      else if name = ''firsts'' then Inr (AStrs (STDataset.firsts d))
      else if name = ''seconds'' then Inr (AStrs (STDataset.seconds d))
      else Inl AttributeError)"

text \<open>\<^verbatim>\<open>len(x)\<close> on an attribute value.\<close>

definition py_len :: "attr_val \<Rightarrow> error + int" where
  "py_len a =
     (case a of AStrs xs \<Rightarrow> Inr (int (length xs))
      | AReals xs \<Rightarrow> Inr (int (length xs))
      | AVocab v \<Rightarrow> Inr (int (vocab_len v))
      | _ \<Rightarrow> Inl ValueError)"

text \<open>\<^verbatim>\<open>STDataset.__len__\<close>: \<^verbatim>\<open>return len(self.smiles)\<close>\<close>

definition ST_len :: "'e STDataset \<Rightarrow> error + int" where
  "ST_len d = bind_err (ST_getattr d ''smiles'') py_len"

definition ST_get_random_pair :: "'e STDataset \<Rightarrow> int \<Rightarrow> rng \<Rightarrow> error + ((string \<times> int) \<times> rng)" where
  "ST_get_random_pair d index g =
     (let (rand, g1) = random_random g
      in if rand < 0.5
         then bind_err (py_index (STDataset.firsts d) index) (\<lambda>s. Inr ((s, 1), g1))
         else bind_err (py_index (STDataset.seconds d) index) (\<lambda>s. Inr ((s, 0), g1)))"

definition ST_mask :: "'e STDataset \<Rightarrow> string list \<Rightarrow> rng \<Rightarrow> error + ((int list \<times> int list) \<times> rng)" where
  "ST_mask d sm g = mask_loop (STDataset.vocab d) (STDataset.is_train d) 0.15 sm g"

definition ST_getitem :: "'e STDataset \<Rightarrow> int \<Rightarrow> rng \<Rightarrow> 'e \<Rightarrow> error + (sample \<times> rng \<times> 'e)" where
  "ST_getitem d item g e =
     bind_err (py_index (STDataset.firsts d) item) (\<lambda>sm1.
     bind_err (ST_get_random_pair d item g) (\<lambda>((sm2, is_same_label), g1).
     bind_err (STDataset.transform d sm1 e) (\<lambda>(sm1, e1).
     bind_err (STDataset.transform d sm2 e1) (\<lambda>(sm2, e2).
     bind_err (ST_mask d sm1 g1) (\<lambda>((masked_ids1, ans_ids1), g2).
     bind_err (ST_mask d sm2 g2) (\<lambda>((masked_ids2, ans_ids2), g3).
       let v = STDataset.vocab d;
           n = STDataset.seq_len d;
           masked_ids1 = [sos_index v] @ masked_ids1 @ [eos_index v];
           masked_ids2 = masked_ids2 @ [eos_index v];
           ans_ids1 = [pad_index v] @ ans_ids1 @ [pad_index v];
           ans_ids2 = ans_ids2 @ [pad_index v];
           segment_embd = py_prefix (py_repeat 1 (int (length masked_ids1))
                                     @ py_repeat 2 (int (length masked_ids2))) n;
           bert_input = py_prefix (masked_ids1 @ masked_ids2) n;
           bert_label = py_prefix (ans_ids1 @ ans_ids2) n;
           padding = py_repeat (pad_index v) (n - int (length bert_input))
       in Inr (\<lparr>bert_input = bert_input @ padding,
                 bert_label = Some (bert_label @ padding),
                 segment_embd = segment_embd @ padding,
                 is_same = Some is_same_label,
                 target = None\<rparr>, g3, e2)))))))"

section \<open>Seq2seqDataset\<close>

record 'e Seq2seqDataset =
  vocab :: Vocab
  seq_len :: int
  is_train :: bool
  transform :: "'e transform"
  data_size :: nat
  smiles :: "string list"

definition Seq2seq_init :: "string list \<Rightarrow> Vocab \<Rightarrow> int \<Rightarrow> 'e transform \<Rightarrow> bool \<Rightarrow> 'e Seq2seqDataset" where
  "Seq2seq_init df v sl tr it =
     (let max_size = 10000
      in Seq2seqDataset.make v sl it tr (length df)
           (if \<not> it \<and> length df > max_size then take max_size df else df))"

definition Seq2seq_len :: "'e Seq2seqDataset \<Rightarrow> int" where
  "Seq2seq_len d = int (length (Seq2seqDataset.smiles d))"

definition Seq2seq_getitem :: "'e Seq2seqDataset \<Rightarrow> int \<Rightarrow> 'e \<Rightarrow> error + ((int list \<times> int list) \<times> 'e)" where
  "Seq2seq_getitem d item e =
     bind_err (py_index (Seq2seqDataset.smiles d) item) (\<lambda>sm.
     bind_err (Seq2seqDataset.transform d sm e) (\<lambda>(sm1, e1).
       let v = Seq2seqDataset.vocab d;
           n = Seq2seqDataset.seq_len d;
           content = map (stoi_get v) sm1;
           input1 = [sos_index v] @ content @ [eos_index v];
           padding = py_repeat (pad_index v) (n - int (length input1));
           input1 = input1 @ padding
       in bind_err (Seq2seqDataset.transform d sm e1) (\<lambda>(sm2, e2).
            let content = map (stoi_get v) sm2;
                input2 = [sos_index v] @ content @ [eos_index v];
                padding = py_repeat (pad_index v) (n - int (length input2));
                input2 = input2 @ padding
            in Inr ((input1, input2), e2))))"

section \<open>ESOLDataset\<close>

record 'e ESOLDataset =
  vocab :: Vocab
  seq_len :: int
  transform :: "'e transform"
  data_size :: nat
  smiles :: "string list"
  Y :: "real list"

text \<open>The rows of the data frame have the columns \<^verbatim>\<open>SMILES\<close> and \<^verbatim>\<open>solubility\<close>.\<close>

definition ESOL_init :: "(string \<times> real) list \<Rightarrow> Vocab \<Rightarrow> int \<Rightarrow> 'e transform \<Rightarrow> 'e ESOLDataset" where
  "ESOL_init df v sl tr = ESOLDataset.make v sl tr (length df) (map fst df) (map snd df)"

definition ESOL_len :: "'e ESOLDataset \<Rightarrow> int" where
  "ESOL_len d = int (ESOLDataset.data_size d)"

definition ESOL_encode :: "'e ESOLDataset \<Rightarrow> string list \<Rightarrow> int list" where
  "ESOL_encode d sm = encode (ESOLDataset.vocab d) sm"

definition ESOL_getitem :: "'e ESOLDataset \<Rightarrow> int \<Rightarrow> 'e \<Rightarrow> error + (sample \<times> 'e)" where
  "ESOL_getitem d item e =
     bind_err (py_index (ESOLDataset.smiles d) item) (\<lambda>sm.
     bind_err (py_index (ESOLDataset.Y d) item) (\<lambda>y.
     bind_err (ESOLDataset.transform d sm e) (\<lambda>(sm, e1).
       let v = ESOLDataset.vocab d;
           n = ESOLDataset.seq_len d;
           sm = ESOL_encode d sm;
           masked_ids = [sos_index v] @ sm @ [eos_index v];
           segment_embd = py_repeat 1 (int (length masked_ids));
           bert_input = py_prefix masked_ids n;
           padding = py_repeat (pad_index v) (n - int (length bert_input))
       in Inr (\<lparr>bert_input = bert_input @ padding,
                 bert_label = None,
                 segment_embd = segment_embd @ padding,
                 is_same = None,
                 target = Some y\<rparr>, e1))))"

section \<open>TSMDataset\<close>

record 'e TSMDataset =
  vocab :: Vocab
  seq_len :: int
  is_train :: bool
  transform :: "'e transform"
  data_size :: nat
  firsts :: "string list"
  seconds :: "string list"

definition TSM_init :: "(string \<times> string) list \<Rightarrow> Vocab \<Rightarrow> int \<Rightarrow> 'e transform \<Rightarrow> bool \<Rightarrow> 'e TSMDataset" where
  "TSM_init df v sl tr it = TSMDataset.make v sl it tr (length df) (map fst df) (map snd df)"

definition TSM_len :: "'e TSMDataset \<Rightarrow> int" where
  "TSM_len d = int (TSMDataset.data_size d)"

definition TSM_get_random_pair :: "'e TSMDataset \<Rightarrow> int \<Rightarrow> rng \<Rightarrow> error + ((string \<times> int) \<times> rng)" where
  "TSM_get_random_pair d index g =
     (let (rand, g1) = random_random g
      in if rand < 0.5
         then bind_err (py_index (TSMDataset.firsts d) index) (\<lambda>s. Inr ((s, 1), g1))
         else bind_err (py_index (TSMDataset.seconds d) index) (\<lambda>s. Inr ((s, 0), g1)))"

text \<open>
  \<^verbatim>\<open>TSMDataset.encode\<close> is applied to the corpus string itself, so the loop
  runs over its characters and looks each one-character string up.
\<close>

definition TSM_encode :: "'e TSMDataset \<Rightarrow> string \<Rightarrow> int list" where
  "TSM_encode d sm = encode (TSMDataset.vocab d) (map (\<lambda>c. [c]) sm)"

definition TSM_getitem :: "'e TSMDataset \<Rightarrow> int \<Rightarrow> rng \<Rightarrow> error + (sample \<times> rng)" where
  "TSM_getitem d item g =
     bind_err (py_index (TSMDataset.firsts d) item) (\<lambda>sm1.
     bind_err (TSM_get_random_pair d item g) (\<lambda>((sm2, is_same_label), g1).
       let v = TSMDataset.vocab d;
           n = TSMDataset.seq_len d;
           sm1 = TSM_encode d sm1;
           sm2 = TSM_encode d sm2;
           sm1 = [sos_index v] @ sm1 @ [eos_index v];
           sm2 = sm2 @ [eos_index v];
           segment_embd = py_prefix (py_repeat 1 (int (length sm1))
                                     @ py_repeat 2 (int (length sm2))) n;
           bert_input = py_prefix (sm1 @ sm2) n;
           padding = py_repeat (pad_index v) (n - int (length bert_input))
       in Inr (\<lparr>bert_input = bert_input @ padding,
                 bert_label = None,
                 segment_embd = segment_embd @ padding,
                 is_same = Some is_same_label,
                 target = None\<rparr>, g1)))"

section \<open>MSMDataset\<close>

record 'e MSMDataset =
  vocab :: Vocab
  seq_len :: int
  is_train :: bool
  transform :: "'e transform"
  firsts :: "string list"
  data_size :: nat
  rate :: real

definition MSM_init :: "string list \<Rightarrow> Vocab \<Rightarrow> int \<Rightarrow> 'e transform \<Rightarrow> bool \<Rightarrow> real \<Rightarrow> 'e MSMDataset" where
  "MSM_init df v sl tr it r = MSMDataset.make v sl it tr df (length df) r"

definition MSM_len :: "'e MSMDataset \<Rightarrow> int" where
  "MSM_len d = int (MSMDataset.data_size d)"

definition MSM_mask :: "'e MSMDataset \<Rightarrow> string list \<Rightarrow> rng \<Rightarrow> error + ((int list \<times> int list) \<times> rng)" where
  "MSM_mask d sm g =
     mask_loop (MSMDataset.vocab d) (MSMDataset.is_train d) (MSMDataset.rate d) sm g"

definition MSM_getitem :: "'e MSMDataset \<Rightarrow> int \<Rightarrow> rng \<Rightarrow> 'e \<Rightarrow> error + (sample \<times> rng \<times> 'e)" where
  "MSM_getitem d item g e =
     bind_err (py_index (MSMDataset.firsts d) item) (\<lambda>sm1.
     bind_err (py_index (MSMDataset.firsts d) item) (\<lambda>sm2.
     bind_err (MSMDataset.transform d sm1 e) (\<lambda>(sm1, e1).
     bind_err (MSMDataset.transform d sm2 e1) (\<lambda>(sm2, e2).
     bind_err (MSM_mask d sm1 g) (\<lambda>((masked_ids1, ans_ids1), g2).
     bind_err (MSM_mask d sm2 g2) (\<lambda>((masked_ids2, ans_ids2), g3).
       let v = MSMDataset.vocab d;
           n = MSMDataset.seq_len d;
           masked_ids1 = [sos_index v] @ masked_ids1 @ [eos_index v];
           masked_ids2 = masked_ids2 @ [eos_index v];
           ans_ids1 = [pad_index v] @ ans_ids1 @ [pad_index v];
           ans_ids2 = ans_ids2 @ [pad_index v];
           segment_embd = py_prefix (py_repeat 1 (int (length masked_ids1))
                                     @ py_repeat 2 (int (length masked_ids2))) n;
           bert_input = py_prefix (masked_ids1 @ masked_ids2) n;
           bert_label = py_prefix (ans_ids1 @ ans_ids2) n;
           padding = py_repeat (pad_index v) (n - int (length bert_input))
       in Inr (\<lparr>bert_input = bert_input @ padding,
                 bert_label = Some (bert_label @ padding),
                 segment_embd = segment_embd @ padding,
                 is_same = None,
                 target = None\<rparr>, g3, e2)))))))"

section \<open>Example values\<close>

text \<open>
  The vocabulary of the worked examples:
  \<open>{pad:0, unk:1, sos:2, eos:3, mask:4, "C":5, "O":6}\<close>.
\<close>

definition ex_vocab :: Vocab where
  "ex_vocab = \<lparr>stoi = [''C'' \<mapsto> 5, ''O'' \<mapsto> 6],
     pad_index = 0, unk_index = 1, sos_index = 2, eos_index = 3, mask_index = 4,
     vocab_len = 7\<rparr>"

text \<open>A generator whose every uniform draw is \<open>u\<close> and every raw value \<open>k\<close>.\<close>

definition const_rng :: "real \<Rightarrow> nat \<Rightarrow> rng" where
  "const_rng u k = \<lparr>uniforms = sconst u, raws = sconst k\<rparr>"

text \<open>A tokenizer without rewriting and without state: one token per character.\<close>

definition char_transform :: "unit transform" where
  "char_transform sm e = Inr (map (\<lambda>c. [c]) sm, e)"

section \<open>Basic facts\<close>

lemma bind_err_Inl [simp]: "bind_err (Inl e) f = Inl e"
  by (simp add: bind_err_def)

lemma bind_err_Inr [simp]: "bind_err (Inr x) f = f x"
  by (simp add: bind_err_def)

lemma bind_err_eq_Inr: "bind_err m f = Inr y \<longleftrightarrow> (\<exists>x. m = Inr x \<and> f x = Inr y)"
  by (cases m) simp_all


lemma length_py_prefix: "0 \<le> n \<Longrightarrow> length (py_prefix xs n) = min (nat n) (length xs)"
  by (simp add: py_prefix_def)

lemma length_py_repeat [simp]: "length (py_repeat x k) = nat k"
  by (simp add: py_repeat_def)

lemma padded_length:
  "0 \<le> n \<Longrightarrow> length (py_prefix xs n @ py_repeat p (n - int (length (py_prefix ys n)))) = nat n"
  if "length xs = length ys"
  using that by (simp add: length_py_prefix)

lemma mask_token_ans:
  assumes "mask_token v it r token g = Inr ((m, a), g')"
  shows "a = PAD \<or> a = stoi_get v token"
proof -
  obtain prob g1 where pg: "(if it then random_random g else (1, g)) = (prob, g1)"
    by (cases "if it then random_random g else (1, g)") 
  show ?thesis
    using assms unfolding mask_token_def pg
    by (auto simp: Let_def bind_err_eq_Inr split: if_splits)
qed

lemma mask_loop_ans:
  "mask_loop v it r sm g = Inr ((ms, ans), g') \<Longrightarrow>
   length ms = length sm \<and> length ans = length sm
   \<and> (\<forall>i<length sm. ans ! i \<noteq> PAD \<longrightarrow> ans ! i = stoi_get v (sm ! i))"
proof (induction sm arbitrary: g ms ans g')
  case Nil
  then show ?case by simp
next
  case (Cons token sm)
  from Cons.prems obtain m a g1 ms' ans' where
    tok: "mask_token v it r token g = Inr ((m, a), g1)" and
    rest: "mask_loop v it r sm g1 = Inr ((ms', ans'), g')" and
    ms: "ms = m # ms'" and ans: "ans = a # ans'"
    by (auto simp: bind_err_eq_Inr)
  from Cons.IH [OF rest] mask_token_ans [OF tok] show ?case
    by (auto simp: ms ans nth_Cons split: nat.splits)
qed

lemma mask_token_eval:
  "r < 1 \<Longrightarrow> mask_token v False r token g = Inr ((stoi_get v token, PAD), g)"
  by (simp add: mask_token_def)

lemma mask_loop_eval:
  "r < 1 \<Longrightarrow> mask_loop v False r sm g = Inr ((map (stoi_get v) sm, replicate (length sm) PAD), g)"
  by (induction sm) (simp_all add: mask_token_eval)

text \<open>
  Where the three-way selection cannot be carried out: a zero rate makes the
  division raise, and an empty vocabulary makes the range draw raise. Every
  value below \<open>n\<close> is an outcome of \<^verbatim>\<open>randrange(n)\<close>.
\<close>

lemma mask_token_zero_rate:
  "shd (uniforms g) \<le> 0 \<Longrightarrow> mask_token v True 0 token g = Inl ZeroDivisionError"
  by (simp add: mask_token_def random_random_def)

lemma mask_token_empty_vocab:
  "mask_token (v\<lparr>vocab_len := 0\<rparr>) True 0.15 token (const_rng 0.125 k) = Inl ValueError"
  by (simp add: mask_token_def random_random_def randrange_def const_rng_def)

lemma randrange_onto:
  "k < n \<Longrightarrow> randrange n (g\<lparr>raws := k ## s\<rparr>) = Inr (int k, g\<lparr>raws := s\<rparr>)"
  by (simp add: randrange_def)

section \<open>The masking routine: per-token behaviour\<close>





text \<open>
  C4. In the result of the masking routine of either masking class, every
  answer slot that is not the pad sentinel holds the true id of the token at
  that position (unk on a miss), whichever corruption was applied to the
  input slot.
\<close>

theorem mask_answer_is_true_id:
  "(ST_mask d sm g = Inr ((masked_ids, ans_ids), g') \<longrightarrow>
      length ans_ids = length sm
      \<and> (\<forall>i<length sm. ans_ids ! i \<noteq> PAD \<longrightarrow> ans_ids ! i = stoi_get (STDataset.vocab d) (sm ! i)))
   \<and> (MSM_mask d' sm g = Inr ((masked_ids, ans_ids), g') \<longrightarrow>
      length ans_ids = length sm
      \<and> (\<forall>i<length sm. ans_ids ! i \<noteq> PAD \<longrightarrow> ans_ids ! i = stoi_get (MSMDataset.vocab d') (sm ! i)))"
  unfolding ST_mask_def MSM_mask_def using mask_loop_ans by blast

theorem mask_answer_is_true_id_witness:
  "ST_mask (ST_init [] ex_vocab 8 char_transform True) [''C''] (const_rng 0.03 0)
     = Inr (([4], [5]), const_rng 0.03 0)
   \<and> MSM_mask (MSM_init [] ex_vocab 8 char_transform True 0.15) [''O''] (const_rng 0.14 0)
     = Inr (([6], [6]), const_rng 0.14 0)
   \<and> (0::nat) < length [''C'']
   \<and> [5::int] ! 0 \<noteq> PAD \<and> [5::int] ! 0 = stoi_get ex_vocab ''C''
   \<and> [6::int] ! 0 \<noteq> PAD \<and> [6::int] ! 0 = stoi_get ex_vocab ''O''"
  using mask_answer_is_true_id [where d = "ST_init [] ex_vocab 8 char_transform True"
      and d' = "MSM_init [] ex_vocab 8 char_transform True 0.15"
      and sm = "[''C'']" and g = "const_rng 0.03 0" and masked_ids = "[4]" and ans_ids = "[5]"
      and g' = "const_rng 0.03 0"]
    mask_answer_is_true_id [where d = "ST_init [] ex_vocab 8 char_transform True"
      and d' = "MSM_init [] ex_vocab 8 char_transform True 0.15"
      and sm = "[''O'']" and g = "const_rng 0.14 0" and masked_ids = "[6]" and ans_ids = "[6]"
      and g' = "const_rng 0.14 0"]
  by (simp add: ST_mask_def MSM_mask_def ST_init_def MSM_init_def STDataset.make_def
      MSMDataset.make_def mask_token_def random_random_def const_rng_def ex_vocab_def
      stoi_get_def PAD_def)

section \<open>The length query of STDataset\<close>

text \<open>
  C10. For every STDataset built by its constructor, the length query raises
  an attribute error: it reads the attribute \<^verbatim>\<open>smiles\<close>, which is not among
  the attributes of an instance.
\<close>

theorem ST_len_raises:
  "ST_len (ST_init df v sl tr it) = Inl AttributeError"
  by (simp add: ST_len_def ST_getattr_def)

section \<open>Sample assembly\<close>

text \<open>
  What \<^verbatim>\<open>__getitem__\<close> of the three pair classes returns, in terms of the
  results of the steps before the assembly, and the tag at each position of
  the assembled, truncated and padded tag list.
\<close>

lemma length_py_prefix_cong:
  "length xs = length ys \<Longrightarrow> length (py_prefix xs n) = length (py_prefix ys n)"
  by (simp add: py_prefix_def)



lemma mask_loop_length:
  "mask_loop v it r sm g = Inr ((ms, ans), g') \<Longrightarrow> length ms = length sm \<and> length ans = length sm"
  using mask_loop_ans by blast

lemma ST_getitem_Inr:
  assumes "py_index (STDataset.firsts d) item = Inr sm1"
    and "ST_get_random_pair d item g = Inr ((sm2, lab), g1)"
    and "STDataset.transform d sm1 e = Inr (t1, e1)"
    and "STDataset.transform d sm2 e1 = Inr (t2, e2)"
    and "ST_getitem d item g e = Inr (s, g', e')"
  obtains ms1 ans1 g2 ms2 ans2 where
    "ST_mask d t1 g1 = Inr ((ms1, ans1), g2)" and
    "ST_mask d t2 g2 = Inr ((ms2, ans2), g')" and
    "e' = e2" and
    "bert_input s =
       py_prefix (([sos_index (STDataset.vocab d)] @ ms1 @ [eos_index (STDataset.vocab d)])
                  @ (ms2 @ [eos_index (STDataset.vocab d)])) (STDataset.seq_len d)
       @ py_repeat (pad_index (STDataset.vocab d))
           (STDataset.seq_len d - int (length (py_prefix
              (([sos_index (STDataset.vocab d)] @ ms1 @ [eos_index (STDataset.vocab d)])
               @ (ms2 @ [eos_index (STDataset.vocab d)])) (STDataset.seq_len d))))" and
    "bert_label s = Some (
       py_prefix (([pad_index (STDataset.vocab d)] @ ans1 @ [pad_index (STDataset.vocab d)])
                  @ (ans2 @ [pad_index (STDataset.vocab d)])) (STDataset.seq_len d)
       @ py_repeat (pad_index (STDataset.vocab d))
           (STDataset.seq_len d - int (length (py_prefix
              (([sos_index (STDataset.vocab d)] @ ms1 @ [eos_index (STDataset.vocab d)])
               @ (ms2 @ [eos_index (STDataset.vocab d)])) (STDataset.seq_len d)))))" and
    "segment_embd s =
       py_prefix (py_repeat 1 (int (length ([sos_index (STDataset.vocab d)] @ ms1 @ [eos_index (STDataset.vocab d)])))
                  @ py_repeat 2 (int (length (ms2 @ [eos_index (STDataset.vocab d)]))))
         (STDataset.seq_len d)
       @ py_repeat (pad_index (STDataset.vocab d))
           (STDataset.seq_len d - int (length (py_prefix
              (([sos_index (STDataset.vocab d)] @ ms1 @ [eos_index (STDataset.vocab d)])
               @ (ms2 @ [eos_index (STDataset.vocab d)])) (STDataset.seq_len d))))" and
    "is_same s = Some lab" and "target s = None"
  using assms by (auto simp: ST_getitem_def bind_err_eq_Inr Let_def)


lemma MSM_getitem_Inr:
  assumes "py_index (MSMDataset.firsts d) item = Inr sm1"
    and "MSMDataset.transform d sm1 e = Inr (t1, e1)"
    and "MSMDataset.transform d sm1 e1 = Inr (t2, e2)"
    and "MSM_getitem d item g e = Inr (s, g', e')"
  obtains ms1 ans1 g2 ms2 ans2 where
    "MSM_mask d t1 g = Inr ((ms1, ans1), g2)" and
    "MSM_mask d t2 g2 = Inr ((ms2, ans2), g')" and
    "e' = e2" and
    "bert_input s =
       py_prefix (([sos_index (MSMDataset.vocab d)] @ ms1 @ [eos_index (MSMDataset.vocab d)])
                  @ (ms2 @ [eos_index (MSMDataset.vocab d)])) (MSMDataset.seq_len d)
       @ py_repeat (pad_index (MSMDataset.vocab d))
           (MSMDataset.seq_len d - int (length (py_prefix
              (([sos_index (MSMDataset.vocab d)] @ ms1 @ [eos_index (MSMDataset.vocab d)])
               @ (ms2 @ [eos_index (MSMDataset.vocab d)])) (MSMDataset.seq_len d))))" and
    "bert_label s = Some (
       py_prefix (([pad_index (MSMDataset.vocab d)] @ ans1 @ [pad_index (MSMDataset.vocab d)])
                  @ (ans2 @ [pad_index (MSMDataset.vocab d)])) (MSMDataset.seq_len d)
       @ py_repeat (pad_index (MSMDataset.vocab d))
           (MSMDataset.seq_len d - int (length (py_prefix
              (([sos_index (MSMDataset.vocab d)] @ ms1 @ [eos_index (MSMDataset.vocab d)])
               @ (ms2 @ [eos_index (MSMDataset.vocab d)])) (MSMDataset.seq_len d)))))" and
    "segment_embd s =
       py_prefix (py_repeat 1 (int (length ([sos_index (MSMDataset.vocab d)] @ ms1 @ [eos_index (MSMDataset.vocab d)])))
                  @ py_repeat 2 (int (length (ms2 @ [eos_index (MSMDataset.vocab d)]))))
         (MSMDataset.seq_len d)
       @ py_repeat (pad_index (MSMDataset.vocab d))
           (MSMDataset.seq_len d - int (length (py_prefix
              (([sos_index (MSMDataset.vocab d)] @ ms1 @ [eos_index (MSMDataset.vocab d)])
               @ (ms2 @ [eos_index (MSMDataset.vocab d)])) (MSMDataset.seq_len d))))" and
    "is_same s = None" and "target s = None"
  using assms by (auto simp: MSM_getitem_def bind_err_eq_Inr Let_def)



lemma TSM_getitem_Inr:
  assumes "py_index (TSMDataset.firsts d) item = Inr sm1"
    and "TSM_get_random_pair d item g = Inr ((sm2, lab), g1)"
  shows "TSM_getitem d item g =
    Inr (\<lparr>bert_input =
            py_prefix (([sos_index (TSMDataset.vocab d)] @ TSM_encode d sm1 @ [eos_index (TSMDataset.vocab d)])
                       @ (TSM_encode d sm2 @ [eos_index (TSMDataset.vocab d)])) (TSMDataset.seq_len d)
            @ py_repeat (pad_index (TSMDataset.vocab d))
                (TSMDataset.seq_len d - int (length (py_prefix
                   (([sos_index (TSMDataset.vocab d)] @ TSM_encode d sm1 @ [eos_index (TSMDataset.vocab d)])
                    @ (TSM_encode d sm2 @ [eos_index (TSMDataset.vocab d)])) (TSMDataset.seq_len d)))),
          bert_label = None,
          segment_embd =
            py_prefix (py_repeat 1 (int (length sm1 + 2)) @ py_repeat 2 (int (length sm2 + 1)))
              (TSMDataset.seq_len d)
            @ py_repeat (pad_index (TSMDataset.vocab d))
                (TSMDataset.seq_len d - int (length (py_prefix
                   (([sos_index (TSMDataset.vocab d)] @ TSM_encode d sm1 @ [eos_index (TSMDataset.vocab d)])
                    @ (TSM_encode d sm2 @ [eos_index (TSMDataset.vocab d)])) (TSMDataset.seq_len d)))),
          is_same = Some lab, target = None\<rparr>, g1)"
  using assms by (simp add: TSM_getitem_def Let_def TSM_encode_def encode_def add.commute)


section \<open>Segment tags of the pair variants\<close>



section \<open>The worked pair example\<close>

text \<open>
  C7. With the vocabulary \<open>{pad:0, unk:1, sos:2, eos:3, mask:4, "C":5, "O":6}\<close>
  and \<^verbatim>\<open>seq_len = 8\<close>, first sequence \<open>["C"]\<close>, second sequence \<open>["O"]\<close>, no
  masking and a pairing draw of at least \<open>0.5\<close> (the "different" branch), the
  sample has \<open>bert_input = [2,5,3,6,3,0,0,0]\<close> and
  \<open>segment_embd = [1,1,1,2,2,0,0,0]\<close>: for TSMDataset, which does not mask, and
  for STDataset in evaluation mode.
\<close>

theorem pair_example:
  assumes "0.5 \<le> shd (uniforms g)"
    and "tr ''C'' e = Inr ([''C''], e1)" and "tr ''O'' e1 = Inr ([''O''], e2)"
  shows "map_sum id fst (TSM_getitem (TSM_init [(''C'', ''O'')] ex_vocab 8 tr' it) 0 g)
           = Inr \<lparr>bert_input = [2, 5, 3, 6, 3, 0, 0, 0], bert_label = None,
                  segment_embd = [1, 1, 1, 2, 2, 0, 0, 0], is_same = Some 0, target = None\<rparr>
       \<and> map_sum id fst (ST_getitem (ST_init [(''C'', ''O'')] ex_vocab 8 tr False) 0 g e)
           = Inr \<lparr>bert_input = [2, 5, 3, 6, 3, 0, 0, 0], bert_label = Some [0, 0, 0, 0, 0, 0, 0, 0],
                  segment_embd = [1, 1, 1, 2, 2, 0, 0, 0], is_same = Some 0, target = None\<rparr>"
proof -
  have not_same: "\<not> shd (uniforms g) < 0.5"
    using assms(1) by simp
  have tsm: "map_sum id fst (TSM_getitem (TSM_init [(''C'', ''O'')] ex_vocab 8 tr' it) 0 g)
           = Inr \<lparr>bert_input = [2, 5, 3, 6, 3, 0, 0, 0], bert_label = None,
                  segment_embd = [1, 1, 1, 2, 2, 0, 0, 0], is_same = Some 0, target = None\<rparr>"
    using not_same
    by (simp add: TSM_getitem_def TSM_init_def TSMDataset.make_def ex_vocab_def
        TSM_get_random_pair_def random_random_def py_index_def TSM_encode_def encode_def
        stoi_get_def py_prefix_def py_repeat_def Let_def eval_nat_numeral)
  have st: "map_sum id fst (ST_getitem (ST_init [(''C'', ''O'')] ex_vocab 8 tr False) 0 g e)
           = Inr \<lparr>bert_input = [2, 5, 3, 6, 3, 0, 0, 0], bert_label = Some [0, 0, 0, 0, 0, 0, 0, 0],
                  segment_embd = [1, 1, 1, 2, 2, 0, 0, 0], is_same = Some 0, target = None\<rparr>"
    using not_same assms(2,3)
    by (simp add: ST_getitem_def ST_init_def STDataset.make_def ex_vocab_def
        ST_get_random_pair_def random_random_def py_index_def ST_mask_def mask_token_def
        stoi_get_def py_prefix_def py_repeat_def Let_def PAD_def eval_nat_numeral)
  from tsm st show ?thesis by simp
qed

theorem pair_example_witness:
  "map_sum id fst (TSM_getitem (TSM_init [(''C'', ''O'')] ex_vocab 8 char_transform True) 0 (const_rng 0.7 0))
           = Inr \<lparr>bert_input = [2, 5, 3, 6, 3, 0, 0, 0], bert_label = None,
                  segment_embd = [1, 1, 1, 2, 2, 0, 0, 0], is_same = Some 0, target = None\<rparr>
       \<and> map_sum id fst (ST_getitem (ST_init [(''C'', ''O'')] ex_vocab 8 char_transform False) 0 (const_rng 0.7 0) ())
           = Inr \<lparr>bert_input = [2, 5, 3, 6, 3, 0, 0, 0], bert_label = Some [0, 0, 0, 0, 0, 0, 0, 0],
                  segment_embd = [1, 1, 1, 2, 2, 0, 0, 0], is_same = Some 0, target = None\<rparr>"
  using pair_example [where g = "const_rng 0.7 0" and tr = char_transform and e = "()"
      and ?e1.0 = "()" and ?e2.0 = "()" and tr' = char_transform and it = True]
  by (simp add: const_rng_def char_transform_def)

section \<open>Determinism of TSMDataset\<close>

text \<open>
  C9. Two constructions of a TSMDataset sample at the same index, in which the
  pairing draw falls on the same side of \<open>0.5\<close>, give the same outcome: the
  same exception or the same sample, in particular the same \<open>bert_input\<close> and
  \<open>segment_embd\<close>.
\<close>

theorem TSM_deterministic:
  assumes "(shd (uniforms g) < 0.5) = (shd (uniforms g') < 0.5)"
  shows "map_sum id fst (TSM_getitem d item g) = map_sum id fst (TSM_getitem d item g')"
proof (cases "py_index (TSMDataset.firsts d) item")
  case (Inl err)
  then show ?thesis by (simp add: TSM_getitem_def)
next
  case first: (Inr sm1)
  show ?thesis
  proof (cases "shd (uniforms g) < 0.5")
    case True
    with assms have "shd (uniforms g') < 0.5" by simp
    with True first show ?thesis
      by (simp add: TSM_getitem_def TSM_get_random_pair_def random_random_def Let_def)
  next
    case False
    with assms have "\<not> shd (uniforms g') < 0.5" by simp
    with False first show ?thesis
      by (cases "py_index (TSMDataset.seconds d) item")
        (simp_all add: TSM_getitem_def TSM_get_random_pair_def random_random_def Let_def)
  qed
qed

theorem TSM_deterministic_witness:
  "map_sum id fst (TSM_getitem (TSM_init [(''C'', ''O'')] ex_vocab 8 char_transform False) 0 (const_rng 0.7 0))
   = map_sum id fst (TSM_getitem (TSM_init [(''C'', ''O'')] ex_vocab 8 char_transform False) 0 (const_rng 0.9 3))"
  using TSM_deterministic [of "const_rng 0.7 0" "const_rng 0.9 3"
      "TSM_init [(''C'', ''O'')] ex_vocab 8 char_transform False" 0]
  by (simp add: const_rng_def)

section \<open>Empty token sequences\<close>

lemma py_repeat_one [simp]: "py_repeat x 1 = [x]"
  by (simp add: py_repeat_def)

lemma py_repeat_two [simp]: "py_repeat x 2 = [x, x]"
  by (simp add: py_repeat_def eval_nat_numeral)




section \<open>Lengths of the sample fields\<close>

text \<open>
  For a non-negative \<^verbatim>\<open>seq_len\<close>, the three pair classes return fields of
  exactly that length. ESOLDataset truncates \<open>bert_input\<close> but not
  \<open>segment_embd\<close>, and Seq2seqDataset truncates nothing: a token sequence with
  more than \<open>seq_len - 2\<close> tokens gives fields longer than \<^verbatim>\<open>seq_len\<close>.
\<close>

lemma padded_length_sum:
  "0 \<le> n \<Longrightarrow> length xs = length ys \<Longrightarrow>
   length (py_prefix xs n) + nat (n - int (length (py_prefix ys n))) = nat n"
  by (simp add: length_py_prefix)

lemma ST_getitem_lengths:
  assumes n: "0 \<le> STDataset.seq_len d"
    and res: "ST_getitem d item g e = Inr (s, g', e')"
  shows "length (bert_input s) = nat (STDataset.seq_len d)
       \<and> (\<exists>l. bert_label s = Some l \<and> length l = nat (STDataset.seq_len d))
       \<and> length (segment_embd s) = nat (STDataset.seq_len d)"
proof -
  from res obtain sm1 sm2 lab g1 t1 e1 t2 e2 where
    "py_index (STDataset.firsts d) item = Inr sm1"
    "ST_get_random_pair d item g = Inr ((sm2, lab), g1)"
    "STDataset.transform d sm1 e = Inr (t1, e1)"
    "STDataset.transform d sm2 e1 = Inr (t2, e2)"
    by (auto simp: ST_getitem_def bind_err_eq_Inr)
  from this res obtain ms1 ans1 g2 ms2 ans2 where
    m1: "ST_mask d t1 g1 = Inr ((ms1, ans1), g2)" and
    m2: "ST_mask d t2 g2 = Inr ((ms2, ans2), g')" and
    "e' = e2" and
    s: "bert_input s =
       py_prefix (([sos_index (STDataset.vocab d)] @ ms1 @ [eos_index (STDataset.vocab d)])
                  @ (ms2 @ [eos_index (STDataset.vocab d)])) (STDataset.seq_len d)
       @ py_repeat (pad_index (STDataset.vocab d))
           (STDataset.seq_len d - int (length (py_prefix
              (([sos_index (STDataset.vocab d)] @ ms1 @ [eos_index (STDataset.vocab d)])
               @ (ms2 @ [eos_index (STDataset.vocab d)])) (STDataset.seq_len d))))"
    "bert_label s = Some (
       py_prefix (([pad_index (STDataset.vocab d)] @ ans1 @ [pad_index (STDataset.vocab d)])
                  @ (ans2 @ [pad_index (STDataset.vocab d)])) (STDataset.seq_len d)
       @ py_repeat (pad_index (STDataset.vocab d))
           (STDataset.seq_len d - int (length (py_prefix
              (([sos_index (STDataset.vocab d)] @ ms1 @ [eos_index (STDataset.vocab d)])
               @ (ms2 @ [eos_index (STDataset.vocab d)])) (STDataset.seq_len d)))))"
    "segment_embd s =
       py_prefix (py_repeat 1 (int (length ([sos_index (STDataset.vocab d)] @ ms1 @ [eos_index (STDataset.vocab d)])))
                  @ py_repeat 2 (int (length (ms2 @ [eos_index (STDataset.vocab d)]))))
         (STDataset.seq_len d)
       @ py_repeat (pad_index (STDataset.vocab d))
           (STDataset.seq_len d - int (length (py_prefix
              (([sos_index (STDataset.vocab d)] @ ms1 @ [eos_index (STDataset.vocab d)])
               @ (ms2 @ [eos_index (STDataset.vocab d)])) (STDataset.seq_len d))))"
    by (rule ST_getitem_Inr)
  have "length ans1 = length ms1" "length ans2 = length ms2"
    using m1 m2 by (auto simp: ST_mask_def dest!: mask_loop_length)
  then show ?thesis
    using n by (simp add: s padded_length_sum)
qed


lemma MSM_getitem_lengths:
  assumes n: "0 \<le> MSMDataset.seq_len d"
    and res: "MSM_getitem d item g e = Inr (s, g', e')"
  shows "length (bert_input s) = nat (MSMDataset.seq_len d)
       \<and> (\<exists>l. bert_label s = Some l \<and> length l = nat (MSMDataset.seq_len d))
       \<and> length (segment_embd s) = nat (MSMDataset.seq_len d)"
proof -
  from res obtain sm1 t1 e1 t2 e2 where
    "py_index (MSMDataset.firsts d) item = Inr sm1"
    "MSMDataset.transform d sm1 e = Inr (t1, e1)"
    "MSMDataset.transform d sm1 e1 = Inr (t2, e2)"
    by (auto simp: MSM_getitem_def bind_err_eq_Inr)
  from this res obtain ms1 ans1 g2 ms2 ans2 where
    m1: "MSM_mask d t1 g = Inr ((ms1, ans1), g2)" and
    m2: "MSM_mask d t2 g2 = Inr ((ms2, ans2), g')" and
    "e' = e2" and
    s: "bert_input s =
       py_prefix (([sos_index (MSMDataset.vocab d)] @ ms1 @ [eos_index (MSMDataset.vocab d)])
                  @ (ms2 @ [eos_index (MSMDataset.vocab d)])) (MSMDataset.seq_len d)
       @ py_repeat (pad_index (MSMDataset.vocab d))
           (MSMDataset.seq_len d - int (length (py_prefix
              (([sos_index (MSMDataset.vocab d)] @ ms1 @ [eos_index (MSMDataset.vocab d)])
               @ (ms2 @ [eos_index (MSMDataset.vocab d)])) (MSMDataset.seq_len d))))"
    "bert_label s = Some (
       py_prefix (([pad_index (MSMDataset.vocab d)] @ ans1 @ [pad_index (MSMDataset.vocab d)])
                  @ (ans2 @ [pad_index (MSMDataset.vocab d)])) (MSMDataset.seq_len d)
       @ py_repeat (pad_index (MSMDataset.vocab d))
           (MSMDataset.seq_len d - int (length (py_prefix
              (([sos_index (MSMDataset.vocab d)] @ ms1 @ [eos_index (MSMDataset.vocab d)])
               @ (ms2 @ [eos_index (MSMDataset.vocab d)])) (MSMDataset.seq_len d)))))"
    "segment_embd s =
       py_prefix (py_repeat 1 (int (length ([sos_index (MSMDataset.vocab d)] @ ms1 @ [eos_index (MSMDataset.vocab d)])))
                  @ py_repeat 2 (int (length (ms2 @ [eos_index (MSMDataset.vocab d)]))))
         (MSMDataset.seq_len d)
       @ py_repeat (pad_index (MSMDataset.vocab d))
           (MSMDataset.seq_len d - int (length (py_prefix
              (([sos_index (MSMDataset.vocab d)] @ ms1 @ [eos_index (MSMDataset.vocab d)])
               @ (ms2 @ [eos_index (MSMDataset.vocab d)])) (MSMDataset.seq_len d))))"
    by (rule MSM_getitem_Inr)
  have "length ans1 = length ms1" "length ans2 = length ms2"
    using m1 m2 by (auto simp: MSM_mask_def dest!: mask_loop_length)
  then show ?thesis
    using n by (simp add: s padded_length_sum)
qed

lemma TSM_getitem_lengths:
  assumes n: "0 \<le> TSMDataset.seq_len d"
    and res: "TSM_getitem d item g = Inr (s, g')"
  shows "length (bert_input s) = nat (TSMDataset.seq_len d)
       \<and> length (segment_embd s) = nat (TSMDataset.seq_len d)"
proof -
  from res obtain sm1 sm2 lab g1 where
    first: "py_index (TSMDataset.firsts d) item = Inr sm1" and
    pair: "TSM_get_random_pair d item g = Inr ((sm2, lab), g1)"
    by (auto simp: TSM_getitem_def bind_err_eq_Inr)
  show ?thesis
    using res n unfolding TSM_getitem_Inr [OF first pair]
    by (auto simp: padded_length_sum TSM_encode_def encode_def)
qed

lemma ESOL_getitem_lengths:
  assumes n: "0 \<le> ESOLDataset.seq_len d"
    and first: "py_index (ESOLDataset.smiles d) item = Inr sm"
    and tok: "ESOLDataset.transform d sm e = Inr (t, e1)"
    and res: "ESOL_getitem d item e = Inr (s, e')"
  shows "length (bert_input s) = nat (ESOLDataset.seq_len d)
       \<and> length (segment_embd s) = max (nat (ESOLDataset.seq_len d)) (length t + 2)"
  using res n
  by (auto simp: ESOL_getitem_def first tok bind_err_eq_Inr Let_def ESOL_encode_def encode_def
      length_py_prefix)

lemma Seq2seq_getitem_lengths:
  assumes first: "py_index (Seq2seqDataset.smiles d) item = Inr sm"
    and tok1: "Seq2seqDataset.transform d sm e = Inr (t1, e1)"
    and tok2: "Seq2seqDataset.transform d sm e1 = Inr (t2, e2)"
  shows "\<exists>input1 input2. Seq2seq_getitem d item e = Inr ((input1, input2), e2)
       \<and> length input1 = max (nat (Seq2seqDataset.seq_len d)) (length t1 + 2)
       \<and> length input2 = max (nat (Seq2seqDataset.seq_len d)) (length t2 + 2)"
  by (auto simp: Seq2seq_getitem_def first tok1 tok2 Let_def)

text \<open>
  C1. For a non-negative \<^verbatim>\<open>seq_len\<close>, every sample that STDataset, TSMDataset
  or MSMDataset returns has \<open>bert_input\<close>, \<open>segment_embd\<close> and (when present)
  \<open>bert_label\<close> of length exactly \<^verbatim>\<open>seq_len\<close>, for every index and every
  outcome of the draws; so has \<open>bert_input\<close> of ESOLDataset. Seq2seqDataset
  pads without truncating: each of its two sequences has the length of its
  token sequence plus two markers, or \<^verbatim>\<open>seq_len\<close> if that is larger.
\<close>

theorem sample_lengths:
  "(0 \<le> STDataset.seq_len d1 \<and> ST_getitem d1 item g e = Inr (s, g', e')
    \<longrightarrow> length (bert_input s) = nat (STDataset.seq_len d1)
       \<and> (\<exists>l. bert_label s = Some l \<and> length l = nat (STDataset.seq_len d1))
       \<and> length (segment_embd s) = nat (STDataset.seq_len d1))
   \<and> (0 \<le> TSMDataset.seq_len d2 \<and> TSM_getitem d2 item g = Inr (s, g')
    \<longrightarrow> length (bert_input s) = nat (TSMDataset.seq_len d2)
       \<and> length (segment_embd s) = nat (TSMDataset.seq_len d2))
   \<and> (0 \<le> MSMDataset.seq_len d3 \<and> MSM_getitem d3 item g e = Inr (s, g', e')
    \<longrightarrow> length (bert_input s) = nat (MSMDataset.seq_len d3)
       \<and> (\<exists>l. bert_label s = Some l \<and> length l = nat (MSMDataset.seq_len d3))
       \<and> length (segment_embd s) = nat (MSMDataset.seq_len d3))
   \<and> (0 \<le> ESOLDataset.seq_len d4 \<and> ESOL_getitem d4 item e = Inr (s, e')
    \<longrightarrow> length (bert_input s) = nat (ESOLDataset.seq_len d4))
   \<and> (py_index (Seq2seqDataset.smiles d5) item = Inr sm
      \<and> Seq2seqDataset.transform d5 sm e = Inr (t1, e1)
      \<and> Seq2seqDataset.transform d5 sm e1 = Inr (t2, e2)
    \<longrightarrow> (\<exists>input1 input2. Seq2seq_getitem d5 item e = Inr ((input1, input2), e2)
          \<and> length input1 = max (nat (Seq2seqDataset.seq_len d5)) (length t1 + 2)
          \<and> length input2 = max (nat (Seq2seqDataset.seq_len d5)) (length t2 + 2)))"
proof (intro conjI)
  show "0 \<le> STDataset.seq_len d1 \<and> ST_getitem d1 item g e = Inr (s, g', e')
    \<longrightarrow> length (bert_input s) = nat (STDataset.seq_len d1)
       \<and> (\<exists>l. bert_label s = Some l \<and> length l = nat (STDataset.seq_len d1))
       \<and> length (segment_embd s) = nat (STDataset.seq_len d1)"
    using ST_getitem_lengths [of d1 item g e s g' e'] by blast
  show "0 \<le> TSMDataset.seq_len d2 \<and> TSM_getitem d2 item g = Inr (s, g')
    \<longrightarrow> length (bert_input s) = nat (TSMDataset.seq_len d2)
       \<and> length (segment_embd s) = nat (TSMDataset.seq_len d2)"
    using TSM_getitem_lengths [of d2 item g s g'] by blast
  show "0 \<le> MSMDataset.seq_len d3 \<and> MSM_getitem d3 item g e = Inr (s, g', e')
    \<longrightarrow> length (bert_input s) = nat (MSMDataset.seq_len d3)
       \<and> (\<exists>l. bert_label s = Some l \<and> length l = nat (MSMDataset.seq_len d3))
       \<and> length (segment_embd s) = nat (MSMDataset.seq_len d3)"
    using MSM_getitem_lengths [of d3 item g e s g' e'] by blast
  show "0 \<le> ESOLDataset.seq_len d4 \<and> ESOL_getitem d4 item e = Inr (s, e')
    \<longrightarrow> length (bert_input s) = nat (ESOLDataset.seq_len d4)"
    by (auto simp: ESOL_getitem_def bind_err_eq_Inr Let_def length_py_prefix)
  show "py_index (Seq2seqDataset.smiles d5) item = Inr sm
      \<and> Seq2seqDataset.transform d5 sm e = Inr (t1, e1)
      \<and> Seq2seqDataset.transform d5 sm e1 = Inr (t2, e2)
    \<longrightarrow> (\<exists>input1 input2. Seq2seq_getitem d5 item e = Inr ((input1, input2), e2)
          \<and> length input1 = max (nat (Seq2seqDataset.seq_len d5)) (length t1 + 2)
          \<and> length input2 = max (nat (Seq2seqDataset.seq_len d5)) (length t2 + 2))"
    using Seq2seq_getitem_lengths [of d5 item sm e t1 e1 t2 e2] by blast
qed

theorem sample_lengths_witness:
  "ST_getitem (ST_init [(''C'', ''O'')] ex_vocab 8 char_transform False) 0 (const_rng 0.7 0) ()
     = Inr (\<lparr>bert_input = [2, 5, 3, 6, 3, 0, 0, 0], bert_label = Some [0, 0, 0, 0, 0, 0, 0, 0],
              segment_embd = [1, 1, 1, 2, 2, 0, 0, 0], is_same = Some 0, target = None\<rparr>,
            const_rng 0.7 0, ())
   \<and> TSM_getitem (TSM_init [(''C'', ''O'')] ex_vocab 8 char_transform False) 0 (const_rng 0.7 0)
     = Inr (\<lparr>bert_input = [2, 5, 3, 6, 3, 0, 0, 0], bert_label = None,
              segment_embd = [1, 1, 1, 2, 2, 0, 0, 0], is_same = Some 0, target = None\<rparr>,
            const_rng 0.7 0)
   \<and> MSM_getitem (MSM_init [''C''] ex_vocab 8 char_transform False 0.01) 0 (const_rng 0.7 0) ()
     = Inr (\<lparr>bert_input = [2, 5, 3, 5, 3, 0, 0, 0], bert_label = Some [0, 0, 0, 0, 0, 0, 0, 0],
              segment_embd = [1, 1, 1, 2, 2, 0, 0, 0], is_same = None, target = None\<rparr>,
            const_rng 0.7 0, ())
   \<and> ESOL_getitem (ESOL_init [(''CO'', 1)] ex_vocab 3 char_transform) 0 ()
     = Inr (\<lparr>bert_input = [2, 5, 6], bert_label = None, segment_embd = [1, 1, 1, 1],
              is_same = None, target = Some 1\<rparr>, ())
   \<and> Seq2seq_getitem (Seq2seq_init [''CO''] ex_vocab 6 char_transform True) 0 ()
     = Inr (([2, 5, 6, 3, 0, 0], [2, 5, 6, 3, 0, 0]), ())
   \<and> length [2, 5, 3, 6, 3, 0, 0, 0 :: int] = nat 8
   \<and> length [2, 5, 6 :: int] = nat 3
   \<and> length [2, 5, 6, 3, 0, 0 :: int] = max (nat 6) (length [''C'', ''O''] + 2)"
proof -
  let ?G = "const_rng 0.7 0"
  let ?D1 = "ST_init [(''C'', ''O'')] ex_vocab 8 char_transform False"
  let ?D2 = "TSM_init [(''C'', ''O'')] ex_vocab 8 char_transform False"
  let ?D3 = "MSM_init [''C''] ex_vocab 8 char_transform False 0.01"
  let ?D4 = "ESOL_init [(''CO'', 1)] ex_vocab 3 char_transform"
  let ?D5 = "Seq2seq_init [''CO''] ex_vocab 6 char_transform True"
  let ?st = "\<lparr>bert_input = [2, 5, 3, 6, 3, 0, 0, 0], bert_label = Some [0, 0, 0, 0, 0, 0, 0, 0],
              segment_embd = [1, 1, 1, 2, 2, 0, 0, 0], is_same = Some 0, target = None\<rparr>"
  let ?tsm = "\<lparr>bert_input = [2, 5, 3, 6, 3, 0, 0, 0], bert_label = None,
              segment_embd = [1, 1, 1, 2, 2, 0, 0, 0], is_same = Some 0, target = None\<rparr>"
  let ?msm = "\<lparr>bert_input = [2, 5, 3, 5, 3, 0, 0, 0], bert_label = Some [0, 0, 0, 0, 0, 0, 0, 0],
              segment_embd = [1, 1, 1, 2, 2, 0, 0, 0], is_same = None, target = None\<rparr>"
  let ?esol = "\<lparr>bert_input = [2, 5, 6], bert_label = None, segment_embd = [1, 1, 1, 1],
              is_same = None, target = Some 1\<rparr>"
  have st: "ST_getitem ?D1 0 ?G () = Inr (?st, ?G, ())"
    by (simp add: ST_getitem_def ST_init_def STDataset.make_def ex_vocab_def const_rng_def
        ST_get_random_pair_def random_random_def py_index_def ST_mask_def mask_token_def
        char_transform_def stoi_get_def py_prefix_def py_repeat_def Let_def PAD_def eval_nat_numeral)
  have tsm: "TSM_getitem ?D2 0 ?G = Inr (?tsm, ?G)"
    by (simp add: TSM_getitem_def TSM_init_def TSMDataset.make_def ex_vocab_def const_rng_def
        TSM_get_random_pair_def random_random_def py_index_def TSM_encode_def encode_def
        stoi_get_def py_prefix_def py_repeat_def Let_def eval_nat_numeral)
  have msm: "MSM_getitem ?D3 0 ?G () = Inr (?msm, ?G, ())"
    by (simp add: MSM_getitem_def MSM_init_def MSMDataset.make_def ex_vocab_def const_rng_def
        py_index_def MSM_mask_def mask_token_def
        char_transform_def stoi_get_def py_prefix_def py_repeat_def Let_def PAD_def eval_nat_numeral)
  have esol: "ESOL_getitem ?D4 0 () = Inr (?esol, ())"
    by (simp add: ESOL_getitem_def ESOL_init_def ESOLDataset.make_def ESOL_encode_def encode_def
        ex_vocab_def py_index_def char_transform_def stoi_get_def py_prefix_def py_repeat_def
        Let_def eval_nat_numeral)
  have h1: "0 \<le> STDataset.seq_len ?D1 \<and> ST_getitem ?D1 0 ?G () = Inr (?st, ?G, ())"
    using st by (simp add: ST_init_def STDataset.make_def)
  have h2: "0 \<le> TSMDataset.seq_len ?D2 \<and> TSM_getitem ?D2 0 ?G = Inr (?tsm, ?G)"
    using tsm by (simp add: TSM_init_def TSMDataset.make_def)
  have h3: "0 \<le> MSMDataset.seq_len ?D3 \<and> MSM_getitem ?D3 0 ?G () = Inr (?msm, ?G, ())"
    using msm by (simp add: MSM_init_def MSMDataset.make_def)
  have h4: "0 \<le> ESOLDataset.seq_len ?D4 \<and> ESOL_getitem ?D4 0 () = Inr (?esol, ())"
    using esol by (simp add: ESOL_init_def ESOLDataset.make_def)
  have h5: "py_index (Seq2seqDataset.smiles ?D5) 0 = Inr ''CO''
      \<and> Seq2seqDataset.transform ?D5 ''CO'' () = Inr ([''C'', ''O''], ())
      \<and> Seq2seqDataset.transform ?D5 ''CO'' () = Inr ([''C'', ''O''], ())"
    by (simp add: Seq2seq_init_def Seq2seqDataset.make_def py_index_def char_transform_def)
  note c1 = sample_lengths [THEN conjunct1, THEN mp, OF h1]
  note c2 = sample_lengths [THEN conjunct2, THEN conjunct1, THEN mp, OF h2]
  note c3 = sample_lengths [THEN conjunct2, THEN conjunct2, THEN conjunct1, THEN mp, OF h3]
  note c4 = sample_lengths [THEN conjunct2, THEN conjunct2, THEN conjunct2, THEN conjunct1, THEN mp, OF h4]
  note c5 = sample_lengths [THEN conjunct2, THEN conjunct2, THEN conjunct2, THEN conjunct2, THEN mp, OF h5]
  have s2s: "Seq2seq_getitem ?D5 0 () = Inr (([2, 5, 6, 3, 0, 0], [2, 5, 6, 3, 0, 0]), ())"
    by (simp add: Seq2seq_getitem_def Seq2seq_init_def Seq2seqDataset.make_def
        ex_vocab_def py_index_def char_transform_def stoi_get_def py_repeat_def
        Let_def eval_nat_numeral)
  from c1 c2 c3 c4 c5 st tsm msm esol s2s show ?thesis
    by simp
qed

text \<open>
  With \<^verbatim>\<open>seq_len = 2\<close> and the two tokens \<open>C\<close>, \<open>O\<close>, Seq2seqDataset returns two
  sequences of length 4, and ESOLDataset returns \<open>bert_input\<close> of length 2
  with \<open>segment_embd\<close> of length 4.
\<close>

theorem fields_longer_than_seq_len:
  "Seq2seq_getitem (Seq2seq_init [''CO''] ex_vocab 2 char_transform True) 0 ()
     = Inr (([2, 5, 6, 3], [2, 5, 6, 3]), ())
   \<and> length [2, 5, 6, 3 :: int] \<noteq> nat 2
   \<and> ESOL_getitem (ESOL_init [(''CO'', 1)] ex_vocab 2 char_transform) 0 ()
     = Inr (\<lparr>bert_input = [2, 5], bert_label = None, segment_embd = [1, 1, 1, 1],
              is_same = None, target = Some 1\<rparr>, ())
   \<and> length [1, 1, 1, 1 :: int] \<noteq> nat 2"
  by (simp add: ESOL_getitem_def ESOL_init_def ESOLDataset.make_def ESOL_encode_def encode_def
      Seq2seq_getitem_def Seq2seq_init_def Seq2seqDataset.make_def
      ex_vocab_def py_index_def char_transform_def stoi_get_def py_prefix_def py_repeat_def
      Let_def eval_nat_numeral)

section \<open>Evaluation mode\<close>

text \<open>
  In evaluation mode STDataset draws nothing and masks nothing, and so does
  MSMDataset for a rate below 1: the draw is replaced by \<open>1.0\<close>, which exceeds
  the rate.
\<close>

lemma ST_getitem_eval:
  assumes eval: "\<not> STDataset.is_train d"
    and first: "py_index (STDataset.firsts d) item = Inr sm1"
    and pair: "ST_get_random_pair d item g = Inr ((sm2, lab), g1)"
    and tok1: "STDataset.transform d sm1 e = Inr (t1, e1)"
    and tok2: "STDataset.transform d sm2 e1 = Inr (t2, e2)"
  shows "ST_getitem d item g e =
    Inr (\<lparr>bert_input =
            py_prefix (([sos_index (STDataset.vocab d)] @ encode (STDataset.vocab d) t1 @ [eos_index (STDataset.vocab d)])
                       @ (encode (STDataset.vocab d) t2 @ [eos_index (STDataset.vocab d)])) (STDataset.seq_len d)
            @ py_repeat (pad_index (STDataset.vocab d))
                (STDataset.seq_len d - int (length (py_prefix
                   (([sos_index (STDataset.vocab d)] @ encode (STDataset.vocab d) t1 @ [eos_index (STDataset.vocab d)])
                    @ (encode (STDataset.vocab d) t2 @ [eos_index (STDataset.vocab d)])) (STDataset.seq_len d)))),
          bert_label = Some (
            py_prefix (([pad_index (STDataset.vocab d)] @ replicate (length t1) PAD @ [pad_index (STDataset.vocab d)])
                       @ (replicate (length t2) PAD @ [pad_index (STDataset.vocab d)])) (STDataset.seq_len d)
            @ py_repeat (pad_index (STDataset.vocab d))
                (STDataset.seq_len d - int (length (py_prefix
                   (([sos_index (STDataset.vocab d)] @ encode (STDataset.vocab d) t1 @ [eos_index (STDataset.vocab d)])
                    @ (encode (STDataset.vocab d) t2 @ [eos_index (STDataset.vocab d)])) (STDataset.seq_len d))))),
          segment_embd =
            py_prefix (py_repeat 1 (int (length t1 + 2)) @ py_repeat 2 (int (length t2 + 1)))
              (STDataset.seq_len d)
            @ py_repeat (pad_index (STDataset.vocab d))
                (STDataset.seq_len d - int (length (py_prefix
                   (([sos_index (STDataset.vocab d)] @ encode (STDataset.vocab d) t1 @ [eos_index (STDataset.vocab d)])
                    @ (encode (STDataset.vocab d) t2 @ [eos_index (STDataset.vocab d)])) (STDataset.seq_len d)))),
          is_same = Some lab, target = None\<rparr>, g1, e2)"
  using eval
  by (simp add: ST_getitem_def first pair tok1 tok2 ST_mask_def mask_loop_eval Let_def
      encode_def add.commute)

lemma MSM_getitem_eval:
  assumes eval: "\<not> MSMDataset.is_train d"
    and rate: "MSMDataset.rate d < 1"
    and first: "py_index (MSMDataset.firsts d) item = Inr sm1"
    and tok1: "MSMDataset.transform d sm1 e = Inr (t1, e1)"
    and tok2: "MSMDataset.transform d sm1 e1 = Inr (t2, e2)"
  shows "MSM_getitem d item g e =
    Inr (\<lparr>bert_input =
            py_prefix (([sos_index (MSMDataset.vocab d)] @ encode (MSMDataset.vocab d) t1 @ [eos_index (MSMDataset.vocab d)])
                       @ (encode (MSMDataset.vocab d) t2 @ [eos_index (MSMDataset.vocab d)])) (MSMDataset.seq_len d)
            @ py_repeat (pad_index (MSMDataset.vocab d))
                (MSMDataset.seq_len d - int (length (py_prefix
                   (([sos_index (MSMDataset.vocab d)] @ encode (MSMDataset.vocab d) t1 @ [eos_index (MSMDataset.vocab d)])
                    @ (encode (MSMDataset.vocab d) t2 @ [eos_index (MSMDataset.vocab d)])) (MSMDataset.seq_len d)))),
          bert_label = Some (
            py_prefix (([pad_index (MSMDataset.vocab d)] @ replicate (length t1) PAD @ [pad_index (MSMDataset.vocab d)])
                       @ (replicate (length t2) PAD @ [pad_index (MSMDataset.vocab d)])) (MSMDataset.seq_len d)
            @ py_repeat (pad_index (MSMDataset.vocab d))
                (MSMDataset.seq_len d - int (length (py_prefix
                   (([sos_index (MSMDataset.vocab d)] @ encode (MSMDataset.vocab d) t1 @ [eos_index (MSMDataset.vocab d)])
                    @ (encode (MSMDataset.vocab d) t2 @ [eos_index (MSMDataset.vocab d)])) (MSMDataset.seq_len d))))),
          segment_embd =
            py_prefix (py_repeat 1 (int (length t1 + 2)) @ py_repeat 2 (int (length t2 + 1)))
              (MSMDataset.seq_len d)
            @ py_repeat (pad_index (MSMDataset.vocab d))
                (MSMDataset.seq_len d - int (length (py_prefix
                   (([sos_index (MSMDataset.vocab d)] @ encode (MSMDataset.vocab d) t1 @ [eos_index (MSMDataset.vocab d)])
                    @ (encode (MSMDataset.vocab d) t2 @ [eos_index (MSMDataset.vocab d)])) (MSMDataset.seq_len d)))),
          is_same = None, target = None\<rparr>, g, e2)"
  using eval rate
  by (simp add: MSM_getitem_def first tok1 tok2 MSM_mask_def mask_loop_eval Let_def
      encode_def add.commute)

text \<open>
  C5. In evaluation mode MSMDataset with a rate of 1 takes the masking branch
  for every token: the replacement draw \<open>1.0\<close> does not exceed the rate, the
  rescaled value is \<open>1.0\<close>, the input slot keeps the token's id and the answer
  slot receives the token's id instead of the pad sentinel. On the one-token
  molecule \<open>C\<close> the label is \<open>[0,5,0,5,0,0,0,0]\<close>, for every generator state.
\<close>

theorem MSM_eval_masks_at_rate_one:
  "MSM_getitem (MSM_init [''C''] ex_vocab 8 char_transform False 1) 0 g ()
     = Inr (\<lparr>bert_input = [2, 5, 3, 5, 3, 0, 0, 0], bert_label = Some [0, 5, 0, 5, 0, 0, 0, 0],
              segment_embd = [1, 1, 1, 2, 2, 0, 0, 0], is_same = None, target = None\<rparr>, g, ())"
  by (simp add: MSM_getitem_def MSM_init_def MSMDataset.make_def ex_vocab_def
      py_index_def MSM_mask_def mask_token_def
      char_transform_def stoi_get_def py_prefix_def py_repeat_def Let_def PAD_def eval_nat_numeral)

end
